theory Spec2Isabelle
  imports Complex_Main
begin

section \<open>Water quality predictor: the values the program handles\<close>

text \<open>
  The program (\<^verbatim>\<open>water_quality_prediction.py\<close>) is a Tk form around a pre-trained
  regression model. This theory embeds its three methods \<^verbatim>\<open>load_model_and_scalers\<close>,
  \<^verbatim>\<open>create_ui\<close> and \<^verbatim>\<open>predict_water_quality\<close>, together with the parts of the
  Python runtime they call with user-controlled arguments (\<^verbatim>\<open>float\<close>,
  \<^verbatim>\<open>datetime.strptime\<close> with the format \<^verbatim>\<open>%Y/%m\<close>, the \<^verbatim>\<open>.2f\<close> format and
  array indexing).

  Conventions of the model:
  \<^item> A Python float is a value of \<open>pyfloat\<close>: a finite float is identified with the
    real number it denotes, next to the three non-finite values. Rounding to binary64
    (and with it the overflow of a huge literal to infinity, and the sign of zero) is
    outside the model; \<^verbatim>\<open>np.sin\<close>, \<^verbatim>\<open>np.cos\<close> and \<^verbatim>\<open>np.pi\<close> are the real
    \<open>sin\<close>, \<open>cos\<close> and \<open>pi\<close>.
  \<^item> The text of an entry widget is a \<open>string\<close> whose characters are the code points
    below 256. The text of a result label is the UTF-8 encoding of what the program
    displays (the labels contain the subscripts U+2083 and U+2084).
  \<^item> The trained model and the two scalers are opaque: each is a function from a
    matrix to either a raised exception or a matrix.
\<close>

datatype pyfloat = Fin real | PosInf | NegInf | NaN

type_synonym matrix = "pyfloat list list"

text \<open>
  A raised exception, by the position of its class in Python's hierarchy, with the text
  that \<^verbatim>\<open>str(e)\<close> gives: an instance of \<^verbatim>\<open>ValueError\<close>, an \<^verbatim>\<open>IndexError\<close>, an
  instance of any other class derived from \<^verbatim>\<open>Exception\<close>, and an instance of a class
  derived from \<^verbatim>\<open>BaseException\<close> only (\<^verbatim>\<open>KeyboardInterrupt\<close>, \<^verbatim>\<open>SystemExit\<close>,
  \<^verbatim>\<open>GeneratorExit\<close>).
\<close>

datatype exn = ValueError string | IndexError string | OtherException string
  | NonException string

fun str :: "exn \<Rightarrow> string" where
  "str (ValueError m) = m"
| "str (IndexError m) = m"
| "str (OtherException m) = m"
| "str (NonException m) = m"

text \<open>\<^verbatim>\<open>isinstance(e, Exception)\<close> and \<^verbatim>\<open>isinstance(e, ValueError)\<close>.\<close>

fun is_Exception :: "exn \<Rightarrow> bool" where
  "is_Exception (NonException m) = False"
| "is_Exception e = True"

fun is_ValueError :: "exn \<Rightarrow> bool" where
  "is_ValueError (ValueError m) = True"
| "is_ValueError e = False"

section \<open>Characters, digits and \<^verbatim>\<open>repr\<close>\<close>

definition is_digit :: "char \<Rightarrow> bool" where
  "is_digit c = (c \<in> set ''0123456789'')"

definition digit_val :: "char \<Rightarrow> nat" where
  "digit_val c = of_char c - 48"

definition digits_val :: "string \<Rightarrow> nat" where
  "digits_val ds = foldl (\<lambda>a c. 10 * a + digit_val c) 0 ds"

definition digit_char :: "nat \<Rightarrow> char" where
  "digit_char n = ''0123456789'' ! n"

definition hex_char :: "nat \<Rightarrow> char" where
  "hex_char n = ''0123456789abcdef'' ! n"

text \<open>The decimal numeral of a natural number, as \<^verbatim>\<open>str(n)\<close> and \<^verbatim>\<open>%d\<close> print it.\<close>

function str_nat :: "nat \<Rightarrow> string" where
  "str_nat n = (if n < 10 then [digit_char n] else str_nat (n div 10) @ [digit_char (n mod 10)])"
  by pat_completeness auto
termination
  by (relation "measure id") auto

declare str_nat.simps [simp del]

text \<open>
  \<^verbatim>\<open>repr\<close> of a string of code points below 256: single quotes unless the string
  holds a single quote and no double quote; the quote and the backslash are escaped,
  tab, line feed and carriage return have their letters, and every other non-printable
  code point (below 32, from 127 to 160, and 173) is written \<^verbatim>\<open>\xhh\<close>.
\<close>

definition repr_quote :: "string \<Rightarrow> char" where
  "repr_quote s = (if CHR 0x27 \<in> set s \<and> CHR 0x22 \<notin> set s then CHR 0x22 else CHR 0x27)"

definition hex_escape :: "char \<Rightarrow> string" where
  "hex_escape ch = [CHR 0x5C, CHR ''x'', hex_char (of_char ch div 16), hex_char (of_char ch mod 16)]"

definition repr_char :: "char \<Rightarrow> char \<Rightarrow> string" where
  "repr_char quote ch =
     (let n = (of_char ch :: nat) in
      if ch = quote \<or> ch = CHR 0x5C then [CHR 0x5C, ch]
      else if ch = CHR 0x09 then [CHR 0x5C, CHR ''t'']
      else if ch = CHR 0x0A then [CHR 0x5C, CHR ''n'']
      else if ch = CHR 0x0D then [CHR 0x5C, CHR ''r'']
      else if n < 32 \<or> n = 127 then hex_escape ch
      else if n < 127 then [ch]
      else if n \<le> 160 \<or> n = 173 then hex_escape ch
      else [ch])"

definition repr :: "string \<Rightarrow> string" where
  "repr s = (let quote = repr_quote s in [quote] @ concat (map (repr_char quote) s) @ [quote])"

section \<open>\<^verbatim>\<open>float(s)\<close> for a string \<open>s\<close>\<close>

text \<open>
  CPython converts a string to a float in four steps, modelled in their order:
  \<^enum> unless the text is ASCII, every code point from 127 on becomes a space when it is
    Unicode white space (below 256: U+0085 and U+00A0) and \<^verbatim>\<open>?\<close> otherwise, where
    the copy stops (below 256 no code point from 127 on is a decimal digit);
  \<^enum> if the text holds an underscore, each underscore must stand between two digits and
    is removed; a NUL character is refused;
  \<^enum> ASCII white space is stripped at both ends;
  \<^enum> the rest must be, completely, a decimal literal (optional sign, digits with an
    optional point and at least one digit, optional exponent) or, when no decimal
    literal starts there, an optional sign and one of \<^verbatim>\<open>inf\<close>, \<^verbatim>\<open>infinity\<close>,
    \<^verbatim>\<open>nan\<close> in any letter case.
  Every failure raises \<^verbatim>\<open>ValueError\<close>. There is no range check: the result may be
  infinite or not a number.
\<close>

definition Py_UNICODE_ISSPACE :: "char \<Rightarrow> bool" where
  "Py_UNICODE_ISSPACE ch = (ch = CHR 0x85 \<or> ch = CHR 0xA0)"

fun TransformDecimalAndSpaceToASCII :: "string \<Rightarrow> string" where
  "TransformDecimalAndSpaceToASCII [] = []"
| "TransformDecimalAndSpaceToASCII (ch # rest) =
     (if (of_char ch :: nat) < 127 then ch # TransformDecimalAndSpaceToASCII rest
      else if Py_UNICODE_ISSPACE ch then CHR '' '' # TransformDecimalAndSpaceToASCII rest
      else ''?'')"

fun strip_underscores :: "char \<Rightarrow> string \<Rightarrow> string option" where
  "strip_underscores prev [] = (if prev = CHR ''_'' then None else Some [])"
| "strip_underscores prev (p # ps) =
     (if p = CHR 0x00 then None
      else if p = CHR ''_'' then
        (if is_digit prev then strip_underscores p ps else None)
      else if prev = CHR ''_'' \<and> \<not> is_digit p then None
      else map_option ((#) p) (strip_underscores p ps))"

definition Py_ISSPACE :: "char \<Rightarrow> bool" where
  "Py_ISSPACE c = (c \<in> {CHR '' '', CHR 0x09, CHR 0x0A, CHR 0x0B, CHR 0x0C, CHR 0x0D})"

definition Py_TOLOWER :: "char \<Rightarrow> char" where
  "Py_TOLOWER c =
     (case map_of (zip ''ABCDEFGHIJKLMNOPQRSTUVWXYZ'' ''abcdefghijklmnopqrstuvwxyz'') c of
        Some l \<Rightarrow> l | None \<Rightarrow> c)"

text \<open>\<open>case_insensitive_match s t\<close>: the lower-case word \<open>t\<close> starts \<open>s\<close>, in any case.\<close>

definition case_insensitive_match :: "string \<Rightarrow> string \<Rightarrow> bool" where
  "case_insensitive_match s t = (map Py_TOLOWER (take (length t) s) = t)"

text \<open>An optional sign: whether it negates, and the text after it.\<close>

definition opt_sign :: "string \<Rightarrow> bool \<times> string" where
  "opt_sign s =
     (case s of
        [] \<Rightarrow> (False, s)
      | c # r \<Rightarrow> if c = CHR ''-'' then (True, r) else if c = CHR ''+'' then (False, r)
                 else (False, s))"

definition pow10 :: "int \<Rightarrow> real" where
  "pow10 k = (if 0 \<le> k then 10 ^ nat k else 1 / 10 ^ nat (- k))"

text \<open>
  \<^verbatim>\<open>_Py_dg_strtod\<close>: the longest decimal literal that starts the text, as its value and
  the text after it; \<open>None\<close> when no literal starts there. An exponent mark with no digit
  after it is not part of the literal.
\<close>

definition Py_dg_strtod :: "string \<Rightarrow> (real \<times> string) option" where
  "Py_dg_strtod s00 =
     (let (negate, s1) = opt_sign s00;
          ints = takeWhile is_digit s1;
          s2 = dropWhile is_digit s1;
          (fracs, s3) =
            (case s2 of
               [] \<Rightarrow> ([], s2)
             | c # r \<Rightarrow> if c = CHR ''.'' then (takeWhile is_digit r, dropWhile is_digit r)
                        else ([], s2))
      in if ints = [] \<and> fracs = [] then None
         else
           let (e, s4) =
                 (case s3 of
                    [] \<Rightarrow> (0, s3)
                  | c # r \<Rightarrow>
                      if c = CHR ''e'' \<or> c = CHR ''E'' then
                        (let (eneg, r1) = opt_sign r;
                             eds = takeWhile is_digit r1
                         in if eds = [] then (0, s3)
                            else ((if eneg then - int (digits_val eds) else int (digits_val eds)),
                                  dropWhile is_digit r1))
                      else (0, s3));
               x = real (digits_val (ints @ fracs)) * pow10 (e - int (length fracs))
           in Some (if negate then - x else x, s4))"

text \<open>\<^verbatim>\<open>_Py_parse_inf_or_nan\<close>, tried only when no decimal literal starts the text.\<close>

definition Py_parse_inf_or_nan :: "string \<Rightarrow> (pyfloat \<times> string) option" where
  "Py_parse_inf_or_nan p =
     (let (negate, s) = opt_sign p in
      if case_insensitive_match s ''inf'' then
        (let s' = drop 3 s;
             s'' = (if case_insensitive_match s' ''inity'' then drop 5 s' else s')
         in Some (if negate then NegInf else PosInf, s''))
      else if case_insensitive_match s ''nan'' then Some (NaN, drop 3 s)
      else None)"

definition PyOS_string_to_double :: "string \<Rightarrow> (pyfloat \<times> string) option" where
  "PyOS_string_to_double s =
     (case Py_dg_strtod s of
        Some (x, rest) \<Rightarrow> Some (Fin x, rest)
      | None \<Rightarrow> Py_parse_inf_or_nan s)"

definition float_from_string_inner :: "string \<Rightarrow> pyfloat option" where
  "float_from_string_inner s0 =
     (let s = rev (dropWhile Py_ISSPACE (rev (dropWhile Py_ISSPACE s0))) in
      case PyOS_string_to_double s of
        None \<Rightarrow> None
      | Some (x, rest) \<Rightarrow> if rest = [] then Some x else None)"

definition float_from_string :: "string \<Rightarrow> pyfloat option" where
  "float_from_string v =
     (let s = (if list_all (\<lambda>ch. (of_char ch :: nat) < 128) v then v
               else TransformDecimalAndSpaceToASCII v) in
      if CHR ''_'' \<notin> set (takeWhile (\<lambda>c. c \<noteq> CHR 0x00) s) then float_from_string_inner s
      else case strip_underscores (CHR 0x00) s of
             None \<Rightarrow> None
           | Some dup \<Rightarrow> float_from_string_inner dup)"

text \<open>\<^verbatim>\<open>float(v)\<close>: the float, or the \<^verbatim>\<open>ValueError\<close> it raises.\<close>

definition float :: "string \<Rightarrow> exn + pyfloat" where
  "float v =
     (case float_from_string v of
        Some x \<Rightarrow> Inr x
      | None \<Rightarrow> Inl (ValueError (''could not convert string to float: '' @ repr v)))"

section \<open>\<^verbatim>\<open>datetime.strptime(s, '%Y/%m')\<close>\<close>

text \<open>Of the parsed \<^verbatim>\<open>datetime\<close> the program reads the year and the month only.\<close>

record datetime =
  year :: int
  month :: int

text \<open>
  \<^verbatim>\<open>strptime\<close> turns the format into the regular expression
  \<^verbatim>\<open>(?P<Y>\d\d\d\d)/(?P<m>1[0-2]|0[1-9]|[1-9])\<close>, matches it at the start of the text,
  and refuses text that the match leaves over. Below code point 256 \<^verbatim>\<open>\d\<close> is an
  ASCII digit. The date is then built with day 1, which refuses the year 0. Every
  failure raises \<^verbatim>\<open>ValueError\<close>.
\<close>

fun match_Y :: "string \<Rightarrow> (nat \<times> string) option" where
  "match_Y (a # b # c # d # rest) =
     (if is_digit a \<and> is_digit b \<and> is_digit c \<and> is_digit d
      then Some (digits_val [a, b, c, d], rest) else None)"
| "match_Y s = None"

text \<open>The alternatives of the month are tried in their order; the first that matches wins.\<close>

fun match_m :: "string \<Rightarrow> (nat \<times> string) option" where
  "match_m (a # b # rest) =
     (if a = CHR ''1'' \<and> b \<in> set ''012'' then Some (digits_val [a, b], rest)
      else if a = CHR ''0'' \<and> b \<in> set ''123456789'' then Some (digits_val [a, b], rest)
      else if a \<in> set ''123456789'' then Some (digits_val [a], b # rest)
      else None)"
| "match_m [a] = (if a \<in> set ''123456789'' then Some (digits_val [a], []) else None)"
| "match_m [] = None"

definition format_regex_match :: "string \<Rightarrow> (nat \<times> nat \<times> string) option" where
  "format_regex_match data_string =
     (case match_Y data_string of
        None \<Rightarrow> None
      | Some (Y, s1) \<Rightarrow>
          (case s1 of
             [] \<Rightarrow> None
           | c # s2 \<Rightarrow>
               if c = CHR ''/'' then
                 (case match_m s2 of None \<Rightarrow> None | Some (m, rest) \<Rightarrow> Some (Y, m, rest))
               else None))"

definition strptime :: "string \<Rightarrow> exn + datetime" where
  "strptime data_string =
     (case format_regex_match data_string of
        None \<Rightarrow>
          Inl (ValueError (''time data '' @ repr data_string @ '' does not match format ''
                 @ repr ''%Y/%m''))
      | Some (Y, m, rest) \<Rightarrow>
          if rest \<noteq> [] then Inl (ValueError (''unconverted data remains: '' @ rest))
          else if Y = 0 then Inl (ValueError ''year 0 is out of range'')
          else Inr \<lparr>year = int Y, month = int m\<rparr>)"

section \<open>The \<^verbatim>\<open>.2f\<close> format and array indexing\<close>

text \<open>
  \<^verbatim>\<open>f"{x:.2f}"\<close>: a finite value is rounded to the nearest multiple of 1/100, a tie
  going to the even one, and printed with its sign, its integer digits, a point and two
  digits; the non-finite values print as \<^verbatim>\<open>nan\<close>, \<^verbatim>\<open>inf\<close> and \<^verbatim>\<open>-inf\<close>.
\<close>

definition round_half_even :: "real \<Rightarrow> int" where
  "round_half_even r =
     (let f = \<lfloor>r\<rfloor>; d = r - of_int f in
      if d < 1 / 2 then f else if 1 / 2 < d then f + 1 else if even f then f else f + 1)"

fun format_2f :: "pyfloat \<Rightarrow> string" where
  "format_2f NaN = ''nan''"
| "format_2f PosInf = ''inf''"
| "format_2f NegInf = ''-inf''"
| "format_2f (Fin x) =
     (let n = nat (round_half_even (\<bar>x\<bar> * 100)) in
      (if x < 0 then ''-'' else []) @ str_nat (n div 100) @ ''.''
        @ [digit_char (n div 10 mod 10), digit_char (n mod 10)])"

declare format_2f.simps [simp del]

text \<open>\<^verbatim>\<open>a[i]\<close> on a numpy array, for an index that is not negative.\<close>

definition getitem :: "'a list \<Rightarrow> nat \<Rightarrow> exn + 'a" where
  "getitem a i =
     (if i < length a then Inr (a ! i)
      else Inl (IndexError (''index '' @ str_nat i @ '' is out of bounds for axis 0 with size ''
                  @ str_nat (length a))))"

definition getitem2 :: "matrix \<Rightarrow> nat \<Rightarrow> nat \<Rightarrow> exn + pyfloat" where
  "getitem2 a i j = (case getitem a i of Inl e \<Rightarrow> Inl e | Inr row \<Rightarrow> getitem row j)"

section \<open>The application\<close>

text \<open>
  The loaded objects: a Keras model with its \<^verbatim>\<open>predict\<close>, a scaler with its
  \<^verbatim>\<open>transform\<close> and \<^verbatim>\<open>inverse_transform\<close>.
\<close>

record keras_model =
  predict :: "matrix \<Rightarrow> exn + matrix"

record scaler =
  transform :: "matrix \<Rightarrow> exn + matrix"
  inverse_transform :: "matrix \<Rightarrow> exn + matrix"

text \<open>
  What the program takes from its platform: the directory of the script
  (\<^verbatim>\<open>os.path.dirname(os.path.abspath(__file__))\<close>), \<^verbatim>\<open>os.path.join\<close>,
  \<^verbatim>\<open>tf.keras.models.load_model\<close> and \<^verbatim>\<open>joblib.load\<close>.
\<close>

record os =
  base_path :: string
  path_join :: "string \<Rightarrow> string \<Rightarrow> string"
  load_model :: "string \<Rightarrow> exn + keras_model"
  joblib_load :: "string \<Rightarrow> exn + scaler"

text \<open>The three \<^verbatim>\<open>StringVar\<close>s of \<^verbatim>\<open>self.result_vars\<close>, by key.\<close>

record labels =
  NO3 :: string
  SO4 :: string
  pH :: string

text \<open>A modal dialog that \<^verbatim>\<open>messagebox.showerror\<close> has shown: its title and message.\<close>

type_synonym dialog = "string \<times> string"

record artifacts =
  model :: keras_model
  X_scaler :: scaler
  y_scaler :: scaler

text \<open>
  The application object after \<^verbatim>\<open>__init__\<close>, with the text of its two entry widgets
  and the dialogs shown so far, oldest first.
\<close>

record app = artifacts +
  temp_entry :: string
  date_entry :: string
  result_vars :: labels
  dialogs :: "dialog list"

definition showerror :: "string \<Rightarrow> string \<Rightarrow> dialog list \<Rightarrow> dialog list" where
  "showerror title message shown = shown @ [(title, message)]"

subsection \<open>\<^verbatim>\<open>load_model_and_scalers\<close>\<close>

text \<open>
  The \<^verbatim>\<open>try\<close> block loads the model, then the input scaler, then the output scaler;
  the first exception ends it.
\<close>

definition load_try :: "os \<Rightarrow> exn + artifacts" where
  "load_try os =
     (let model_path = path_join os (base_path os) ''water_quality_model.h5'' in
      case load_model os model_path of
        Inl e \<Rightarrow> Inl e
      | Inr m \<Rightarrow>
          (let x_scaler_path = path_join os (base_path os) ''X_scaler.joblib'';
               y_scaler_path = path_join os (base_path os) ''y_scaler.joblib''
           in (case joblib_load os x_scaler_path of
                 Inl e \<Rightarrow> Inl e
               | Inr xs \<Rightarrow>
                   (case joblib_load os y_scaler_path of
                      Inl e \<Rightarrow> Inl e
                    | Inr ys \<Rightarrow> Inr \<lparr>model = m, X_scaler = xs, y_scaler = ys\<rparr>))))"

text \<open>
  \<^verbatim>\<open>except Exception as e\<close> shows the dialog and raises \<open>e\<close> again; an exception that is
  not an instance of \<^verbatim>\<open>Exception\<close> does not match the clause and leaves the method as
  it is. The result is the dialogs shown and either the exception that leaves the method
  or the loaded objects.
\<close>

definition load_model_and_scalers :: "os \<Rightarrow> dialog list \<Rightarrow> dialog list \<times> (exn + artifacts)" where
  "load_model_and_scalers os shown =
     (case load_try os of
        Inr a \<Rightarrow> (shown, Inr a)
      | Inl e \<Rightarrow>
          if is_Exception e then
            (showerror ''Model Loading Error'' (''Could not load model or scalers: '' @ str e) shown,
             Inl e)
          else (shown, Inl e))"

subsection \<open>\<^verbatim>\<open>create_ui\<close>\<close>

text \<open>
  Of the widgets that \<^verbatim>\<open>create_ui\<close> builds, the state holds the two entries, empty at
  first, and the three result variables with their initial text.
\<close>

definition create_ui :: "artifacts \<Rightarrow> dialog list \<Rightarrow> app" where
  "create_ui a shown =
     \<lparr>model = model a, X_scaler = X_scaler a, y_scaler = y_scaler a,
      temp_entry = [], date_entry = [],
      result_vars =
        \<lparr>NO3 = ''Nitrate (NO'' @ [CHR 0xE2, CHR 0x82, CHR 0x83] @ ''): 0.00 mg/L'',
         SO4 = ''Sulphate (SO'' @ [CHR 0xE2, CHR 0x82, CHR 0x84] @ ''): 0.00 mg/L'',
         pH = ''pH Value: 0.00''\<rparr>,
      dialogs = shown\<rparr>"

text \<open>
  \<^verbatim>\<open>__init__\<close>: load, then build the interface. An exception that leaves
  \<^verbatim>\<open>load_model_and_scalers\<close> leaves \<^verbatim>\<open>__init__\<close> and \<^verbatim>\<open>main\<close>: no application
  object exists and the event loop never starts.
\<close>

definition WaterQualityPredictionApp :: "os \<Rightarrow> dialog list \<times> (exn + app)" where
  "WaterQualityPredictionApp os =
     (case load_model_and_scalers os [] of
        (shown, Inl e) \<Rightarrow> (shown, Inl e)
      | (shown, Inr a) \<Rightarrow> (shown, Inr (create_ui a shown)))"

subsection \<open>\<^verbatim>\<open>predict_water_quality\<close>\<close>

definition base_year :: int where
  "base_year = 2010"

definition month_sin :: "int \<Rightarrow> real" where
  "month_sin m = sin (2 * pi * real_of_int m / 12)"

definition month_cos :: "int \<Rightarrow> real" where
  "month_cos m = cos (2 * pi * real_of_int m / 12)"

text \<open>Lines 123 to 132: the 1 by 4 array \<^verbatim>\<open>input_data\<close>.\<close>

definition input_data :: "pyfloat \<Rightarrow> datetime \<Rightarrow> matrix" where
  "input_data temperature date =
     (let year_offset = year date - base_year in
      [[temperature, Fin (month_sin (month date)), Fin (month_cos (month date)),
        Fin (real_of_int year_offset)]])"

definition NO3_text :: "pyfloat \<Rightarrow> string" where
  "NO3_text v = ''Nitrate (NO'' @ [CHR 0xE2, CHR 0x82, CHR 0x83] @ ''): '' @ format_2f v @ '' mg/L''"

definition SO4_text :: "pyfloat \<Rightarrow> string" where
  "SO4_text v = ''Sulphate (SO'' @ [CHR 0xE2, CHR 0x82, CHR 0x84] @ ''): '' @ format_2f v @ '' mg/L''"

definition pH_text :: "pyfloat \<Rightarrow> string" where
  "pH_text v = ''pH Value: '' @ format_2f v"

text \<open>
  Lines 144 to 146: the three \<^verbatim>\<open>set\<close> calls, one after the other. Each reads its
  element of \<^verbatim>\<open>prediction\<close> first, so an \<^verbatim>\<open>IndexError\<close> leaves the variables set so
  far as they are. The result is the state and the exception raised, if any.
\<close>

definition update_result_vars :: "app \<Rightarrow> matrix \<Rightarrow> app \<times> exn option" where
  "update_result_vars self prediction =
     (case getitem2 prediction 0 0 of
        Inl e \<Rightarrow> (self, Some e)
      | Inr p0 \<Rightarrow>
          (let self1 = self\<lparr>result_vars := (result_vars self)\<lparr>NO3 := NO3_text p0\<rparr>\<rparr> in
           (case getitem2 prediction 0 1 of
              Inl e \<Rightarrow> (self1, Some e)
            | Inr p1 \<Rightarrow>
                (let self2 = self1\<lparr>result_vars := (result_vars self1)\<lparr>SO4 := SO4_text p1\<rparr>\<rparr> in
                 (case getitem2 prediction 0 2 of
                    Inl e \<Rightarrow> (self2, Some e)
                  | Inr p2 \<Rightarrow>
                      (self2\<lparr>result_vars := (result_vars self2)\<lparr>pH := pH_text p2\<rparr>\<rparr>,
                       None))))))"

text \<open>Lines 135 to 146: normalize, predict, denormalize, display.\<close>

definition predict_from :: "app \<Rightarrow> matrix \<Rightarrow> app \<times> exn option" where
  "predict_from self input =
     (case transform (X_scaler self) input of
        Inl e \<Rightarrow> (self, Some e)
      | Inr input_normalized \<Rightarrow>
          (case predict (model self) input_normalized of
             Inl e \<Rightarrow> (self, Some e)
           | Inr prediction_normalized \<Rightarrow>
               (case inverse_transform (y_scaler self) prediction_normalized of
                  Inl e \<Rightarrow> (self, Some e)
                | Inr prediction \<Rightarrow> update_result_vars self prediction)))"

text \<open>The whole \<^verbatim>\<open>try\<close> block, lines 116 to 146.\<close>

definition predict_try :: "app \<Rightarrow> app \<times> exn option" where
  "predict_try self =
     (case float (temp_entry self) of
        Inl e \<Rightarrow> (self, Some e)
      | Inr temperature \<Rightarrow>
          (case strptime (date_entry self) of
             Inl e \<Rightarrow> (self, Some e)
           | Inr date \<Rightarrow> predict_from self (input_data temperature date)))"

text \<open>
  The handler of the Predict button. \<^verbatim>\<open>except ValueError\<close> comes first and covers the
  whole block; \<^verbatim>\<open>except Exception as e\<close> takes every other instance of
  \<^verbatim>\<open>Exception\<close>; anything else leaves the handler. The result is the state after the
  click and the exception that leaves the handler, if any.
\<close>

definition predict_water_quality :: "app \<Rightarrow> app \<times> exn option" where
  "predict_water_quality self =
     (case predict_try self of
        (self', None) \<Rightarrow> (self', None)
      | (self', Some e) \<Rightarrow>
          if is_ValueError e then
            (self'\<lparr>dialogs := showerror ''Input Error''
                ''Please enter valid temperature and date.'' (dialogs self')\<rparr>, None)
          else if is_Exception e then
            (self'\<lparr>dialogs := showerror ''Prediction Error'' (str e) (dialogs self')\<rparr>, None)
          else (self', Some e))"

text \<open>
  The states of a session: the state that \<^verbatim>\<open>__init__\<close> leaves, and from there any
  sequence of edits of the two entries and clicks on Predict. The state after a click
  that lets an exception through is kept among them.
\<close>

inductive reachable :: "os \<Rightarrow> app \<Rightarrow> bool" for os :: os where
  init: "WaterQualityPredictionApp os = (shown, Inr self) \<Longrightarrow> reachable os self"
| edit_temp: "reachable os self \<Longrightarrow> reachable os (self\<lparr>temp_entry := s\<rparr>)"
| edit_date: "reachable os self \<Longrightarrow> reachable os (self\<lparr>date_entry := s\<rparr>)"
| click: "reachable os self \<Longrightarrow> reachable os (fst (predict_water_quality self))"

section \<open>Notions of the specification\<close>


text \<open>
  A number printed with exactly two decimal places: an optional minus sign, at least one
  digit, a point, two digits.
\<close>

definition two_decimal_places :: "string \<Rightarrow> bool" where
  "two_decimal_places s =
     (let u = (case s of [] \<Rightarrow> s | c # r \<Rightarrow> if c = CHR ''-'' then r else s) in
      takeWhile is_digit u \<noteq> [] \<and>
      (case dropWhile is_digit u of
         [p, a, b] \<Rightarrow> p = CHR ''.'' \<and> is_digit a \<and> is_digit b
       | _ \<Rightarrow> False))"

text \<open>What the \<^verbatim>\<open>.2f\<close> format can print: two decimal places, or a non-finite value.\<close>

definition dot2f_text :: "string \<Rightarrow> bool" where
  "dot2f_text s = (two_decimal_places s \<or> s \<in> set [''nan'', ''inf'', ''-inf''])"

text \<open>The text between a given prefix and a given suffix, when the string has both.\<close>

definition between :: "string \<Rightarrow> string \<Rightarrow> string \<Rightarrow> string option" where
  "between pre suf s =
     (if length pre + length suf \<le> length s \<and> take (length pre) s = pre
         \<and> drop (length s - length suf) s = suf
      then Some (take (length s - length pre - length suf) (drop (length pre) s))
      else None)"

text \<open>
  The three labels show a value each, accepted by \<open>ok\<close>: nitrate and sulphate between
  their caption and the unit \<^verbatim>\<open>mg/L\<close>, pH after its caption with no unit.
\<close>

definition labels_show :: "(string \<Rightarrow> bool) \<Rightarrow> labels \<Rightarrow> bool" where
  "labels_show ok l =
     ((case between (''Nitrate (NO'' @ [CHR 0xE2, CHR 0x82, CHR 0x83] @ ''): '') '' mg/L'' (NO3 l) of
         Some t \<Rightarrow> ok t | None \<Rightarrow> False)
      \<and> (case between (''Sulphate (SO'' @ [CHR 0xE2, CHR 0x82, CHR 0x84] @ ''): '') '' mg/L'' (SO4 l) of
         Some t \<Rightarrow> ok t | None \<Rightarrow> False)
      \<and> (case between ''pH Value: '' [] (pH l) of
         Some t \<Rightarrow> ok t | None \<Rightarrow> False))"

section \<open>Example artifacts and platforms\<close>

text \<open>
  Concrete stand-ins for the opaque objects, used to run the program on examples: a
  scaler that changes nothing, a model that returns the first three columns of its
  input, a model whose \<^verbatim>\<open>predict\<close> raises a given exception, and a platform on which
  exactly the listed files exist.
\<close>

definition identity_scaler :: scaler where
  "identity_scaler = \<lparr>transform = Inr, inverse_transform = Inr\<rparr>"

definition first_three_model :: keras_model where
  "first_three_model = \<lparr>predict = (\<lambda>x. Inr (map (take 3) x))\<rparr>"

definition raising_model :: "exn \<Rightarrow> keras_model" where
  "raising_model e = \<lparr>predict = (\<lambda>x. Inl e)\<rparr>"

definition example_artifacts :: "keras_model \<Rightarrow> artifacts" where
  "example_artifacts m = \<lparr>model = m, X_scaler = identity_scaler, y_scaler = identity_scaler\<rparr>"

definition example_app :: "keras_model \<Rightarrow> string \<Rightarrow> string \<Rightarrow> app" where
  "example_app m t d = (create_ui (example_artifacts m) [])\<lparr>temp_entry := t, date_entry := d\<rparr>"

definition example_os :: "string list \<Rightarrow> os" where
  "example_os files =
     \<lparr>base_path = ''/opt/app'',
      path_join = (\<lambda>a b. a @ ''/'' @ b),
      load_model = (\<lambda>p. if p \<in> set files then Inr first_three_model
                          else Inl (OtherException (''No file or directory found at '' @ p))),
      joblib_load = (\<lambda>p. if p \<in> set files then Inr identity_scaler
                           else Inl (OtherException (''[Errno 2] No such file or directory: '' @ repr p)))\<rparr>"

definition all_files :: "string list" where
  "all_files = [''/opt/app/water_quality_model.h5'', ''/opt/app/X_scaler.joblib'',
                ''/opt/app/y_scaler.joblib'']"




section \<open>Facts about the runtime functions\<close>

lemmas parse_defs = float_def float_from_string_def float_from_string_inner_def
  PyOS_string_to_double_def Py_parse_inf_or_nan_def Py_dg_strtod_def opt_sign_def pow10_def
  case_insensitive_match_def Py_TOLOWER_def Py_ISSPACE_def Py_UNICODE_ISSPACE_def is_digit_def
  digit_val_def digits_val_def repr_def repr_char_def repr_quote_def hex_escape_def hex_char_def
  Let_def strptime_def format_regex_match_def

lemma float_raises_ValueError: "float s = Inl e \<Longrightarrow> is_ValueError e"
  by (auto simp: float_def split: option.splits)

lemma strptime_raises_ValueError: "strptime s = Inl e \<Longrightarrow> is_ValueError e"
  by (auto simp: strptime_def split: option.splits if_splits)

lemma match_m_range:
  assumes "match_m s = Some (m, rest)"
  shows "1 \<le> m \<and> m \<le> 12"
  using assms
  by (induction s rule: match_m.induct)
     (auto simp: digits_val_def digit_val_def split: if_splits)

lemma strptime_month_range:
  assumes "strptime s = Inr d"
  shows "1 \<le> month d \<and> month d \<le> 12"
  using assms
  by (auto simp: strptime_def format_regex_match_def
      split: option.splits if_splits list.splits dest!: match_m_range)

lemma float_nan: "float ''nan'' = Inr NaN"
  by (simp add: parse_defs)




lemma float_21_5: "float ''21.5'' = Inr (Fin (43 / 2))"
  by (simp add: parse_defs)

lemma float_abc: "isl (float ''abc'')"
  by (simp add: parse_defs)

lemma strptime_2020_06: "strptime ''2020/06'' = Inr \<lparr>year = 2020, month = 6\<rparr>"
  by (simp add: parse_defs)

lemma strptime_dash: "isl (strptime ''2020-06'')"
  by (simp add: parse_defs)

lemma getitem_raises: "getitem a i = Inl e \<Longrightarrow> \<not> is_ValueError e \<and> is_Exception e"
  by (auto simp: getitem_def split: if_splits)

lemma getitem2_raises: "getitem2 a i j = Inl e \<Longrightarrow> \<not> is_ValueError e \<and> is_Exception e"
  by (auto simp: getitem2_def split: sum.splits dest: getitem_raises)

section \<open>Facts about the handler\<close>

lemma update_result_vars_dialogs:
  "update_result_vars self p = (self', r) \<Longrightarrow> dialogs self' = dialogs self"
  by (auto simp: update_result_vars_def Let_def split: sum.splits)

lemma update_result_vars_raises:
  "update_result_vars self p = (self', Some e) \<Longrightarrow> \<not> is_ValueError e \<and> is_Exception e"
  by (auto simp: update_result_vars_def Let_def split: sum.splits dest: getitem2_raises)

lemma predict_from_dialogs:
  "predict_from self x = (self', r) \<Longrightarrow> dialogs self' = dialogs self"
  by (auto simp: predict_from_def split: sum.splits dest: update_result_vars_dialogs)

lemma predict_from_ValueError:
  "predict_from self x = (self', Some e) \<Longrightarrow> is_ValueError e \<Longrightarrow> self' = self"
  by (auto simp: predict_from_def split: sum.splits dest: update_result_vars_raises)

lemma predict_try_dialogs:
  "predict_try self = (self', r) \<Longrightarrow> dialogs self' = dialogs self"
  by (auto simp: predict_try_def split: sum.splits dest: predict_from_dialogs)

lemma predict_try_ValueError:
  "predict_try self = (self', Some e) \<Longrightarrow> is_ValueError e \<Longrightarrow> self' = self"
  by (auto simp: predict_try_def split: sum.splits dest: predict_from_ValueError)

text \<open>A stage of the pipeline raises \<open>e\<close>: the block ends there, the state as it was.\<close>

lemma stage_raises:
  assumes "float (temp_entry self) = Inr t" and "strptime (date_entry self) = Inr d"
    and "transform (X_scaler self) (input_data t d) = Inl e
      \<or> (\<exists>xn. transform (X_scaler self) (input_data t d) = Inr xn
            \<and> (predict (model self) xn = Inl e
               \<or> (\<exists>pn. predict (model self) xn = Inr pn
                     \<and> inverse_transform (y_scaler self) pn = Inl e)))"
  shows "predict_try self = (self, Some e)"
  using assms by (auto simp: predict_try_def predict_from_def)



text \<open>The example application on a well-formed input, stage by stage.\<close>

lemma example_temp: "float (temp_entry (example_app m ''21.5'' ''2020/06'')) = Inr (Fin (43 / 2))"
  by (simp add: example_app_def float_21_5)

lemma example_date:
  "strptime (date_entry (example_app m ''21.5'' ''2020/06'')) = Inr \<lparr>year = 2020, month = 6\<rparr>"
  by (simp add: example_app_def strptime_2020_06)

lemma example_input: "input_data (Fin (43 / 2)) \<lparr>year = 2020, month = 6\<rparr>
    = [[Fin (43 / 2), Fin 0, Fin (- 1), Fin 10]]"
  by (simp add: input_data_def month_sin_def month_cos_def base_year_def)

lemma example_transform:
  "transform (X_scaler (example_app m t d)) x = Inr x"
  by (simp add: example_app_def create_ui_def example_artifacts_def identity_scaler_def)

lemma example_inverse_transform:
  "inverse_transform (y_scaler (example_app m t d)) x = Inr x"
  by (simp add: example_app_def create_ui_def example_artifacts_def identity_scaler_def)

lemma example_model: "model (example_app m t d) = m"
  by (simp add: example_app_def create_ui_def example_artifacts_def)

lemma example_dialogs: "dialogs (example_app m t d) = []"
  by (simp add: example_app_def create_ui_def)

lemma format_examples:
  "format_2f (Fin (43 / 2)) = ''21.50''" "format_2f (Fin 0) = ''0.00''"
  "format_2f (Fin (- 1)) = ''-1.00''"
  by (simp_all add: format_2f.simps round_half_even_def str_nat.simps digit_char_def)

lemma digit_char_is_digit: "n < 10 \<Longrightarrow> is_digit (digit_char n)"
proof -
  assume "n < 10"
  then have "n \<in> {0, 1, 2, 3, 4, 5, 6, 7, 8, 9}"
    by auto
  then show ?thesis
    by (auto simp: digit_char_def is_digit_def)
qed

lemma str_nat_digits: "str_nat n \<noteq> [] \<and> (\<forall>c\<in>set (str_nat n). is_digit c)"
proof (induction n rule: str_nat.induct)
  case (1 n)
  show ?case
  proof (cases "n < 10")
    case True
    then show ?thesis
      by (subst (1 2) str_nat.simps) (simp add: digit_char_is_digit)
  next
    case False
    with 1 show ?thesis
      by (subst (1 2) str_nat.simps) (auto simp: digit_char_is_digit)
  qed
qed

lemma not_digit_point: "\<not> is_digit (CHR ''.'')" "\<not> is_digit (CHR ''-'')"
  by (simp_all add: is_digit_def)

lemma two_decimal_places_digits:
  assumes "ds \<noteq> []" and "\<forall>c\<in>set ds. is_digit c" and "is_digit a" and "is_digit b"
  shows "two_decimal_places (ds @ CHR ''.'' # [a, b])"
    and "two_decimal_places (CHR ''-'' # ds @ CHR ''.'' # [a, b])"
proof -
  obtain c cs where ds: "ds = c # cs"
    using assms(1) by (cases ds) auto
  with assms(2) have "is_digit c" by simp
  then have c: "c \<noteq> CHR ''-''"
    using not_digit_point by auto
  have t: "takeWhile is_digit (ds @ CHR ''.'' # [a, b]) = ds"
    using assms(2) by (simp add: takeWhile_append2 not_digit_point)
  have d: "dropWhile is_digit (ds @ CHR ''.'' # [a, b]) = CHR ''.'' # [a, b]"
    using assms(2) by (simp add: dropWhile_append2 not_digit_point)
  show "two_decimal_places (ds @ CHR ''.'' # [a, b])"
    unfolding two_decimal_places_def Let_def
    using t d assms c by (simp add: ds)
  show "two_decimal_places (CHR ''-'' # ds @ CHR ''.'' # [a, b])"
    unfolding two_decimal_places_def Let_def
    using t d assms by simp
qed

lemma two_decimal_places_format: "two_decimal_places (format_2f (Fin x))"
  using two_decimal_places_digits[OF conjunct1[OF str_nat_digits] conjunct2[OF str_nat_digits]
      digit_char_is_digit digit_char_is_digit]
  by (simp add: format_2f.simps Let_def)

lemma dot2f_text_format: "dot2f_text (format_2f v)"
proof (cases v)
  case (Fin x)
  then show ?thesis
    by (simp add: dot2f_text_def two_decimal_places_format)
qed (simp_all add: dot2f_text_def format_2f.simps)

lemma between_affixes: "between pre suf (pre @ t @ suf) = Some t"
  by (simp add: between_def)

lemma labels_show_texts:
  assumes "ok (format_2f a)" and "ok (format_2f b)" and "ok (format_2f c)"
  shows "labels_show ok \<lparr>NO3 = NO3_text a, SO4 = SO4_text b, pH = pH_text c\<rparr>"
proof -
  have 1: "between (''Nitrate (NO'' @ [CHR 0xE2, CHR 0x82, CHR 0x83] @ ''): '') '' mg/L''
      (NO3_text a) = Some (format_2f a)"
    unfolding NO3_text_def using between_affixes[where pre = "''Nitrate (NO'' @ [CHR 0xE2, CHR 0x82, CHR 0x83] @ ''): ''"
        and t = "format_2f a" and suf = "'' mg/L''"]
    by (simp only: append_assoc)
  have 2: "between (''Sulphate (SO'' @ [CHR 0xE2, CHR 0x82, CHR 0x84] @ ''): '') '' mg/L''
      (SO4_text b) = Some (format_2f b)"
    unfolding SO4_text_def using between_affixes[where pre = "''Sulphate (SO'' @ [CHR 0xE2, CHR 0x82, CHR 0x84] @ ''): ''"
        and t = "format_2f b" and suf = "'' mg/L''"]
    by (simp only: append_assoc)
  have 3: "between ''pH Value: '' [] (pH_text c) = Some (format_2f c)"
    unfolding pH_text_def using between_affixes[where pre = "''pH Value: ''" and t = "format_2f c" and suf = "[]"]
    by (simp only: append_Nil2)
  show ?thesis
    unfolding labels_show_def using assms by (simp only: 1 2 3 labels.simps option.case)
qed

text \<open>The form of the three labels, kept by every step of a session.\<close>

lemma create_ui_texts:
  "result_vars (create_ui a shown)
     = \<lparr>NO3 = NO3_text (Fin 0), SO4 = SO4_text (Fin 0), pH = pH_text (Fin 0)\<rparr>"
  by (simp add: create_ui_def NO3_text_def SO4_text_def pH_text_def format_examples)

lemma update_result_vars_texts:
  assumes "update_result_vars self p = (self', r)"
    and "result_vars self = \<lparr>NO3 = NO3_text a0, SO4 = SO4_text b0, pH = pH_text c0\<rparr>"
  shows "\<exists>a b c. result_vars self' = \<lparr>NO3 = NO3_text a, SO4 = SO4_text b, pH = pH_text c\<rparr>"
  using assms
  by (auto simp: update_result_vars_def Let_def split: sum.splits)

lemma predict_water_quality_texts:
  assumes "\<exists>a b c. result_vars self = \<lparr>NO3 = NO3_text a, SO4 = SO4_text b, pH = pH_text c\<rparr>"
  shows "\<exists>a b c. result_vars (fst (predict_water_quality self))
     = \<lparr>NO3 = NO3_text a, SO4 = SO4_text b, pH = pH_text c\<rparr>"
proof -
  obtain s1 r1 where t: "predict_try self = (s1, r1)"
    by (cases "predict_try self")
  from assms obtain a0 b0 c0
    where l: "result_vars self = \<lparr>NO3 = NO3_text a0, SO4 = SO4_text b0, pH = pH_text c0\<rparr>"
    by blast
  have "s1 = self \<or> (\<exists>p. update_result_vars self p = (s1, r1))"
    using t by (auto simp: predict_try_def predict_from_def split: sum.splits)
  then have "\<exists>a b c. result_vars s1 = \<lparr>NO3 = NO3_text a, SO4 = SO4_text b, pH = pH_text c\<rparr>"
    using l update_result_vars_texts[OF _ l] by blast
  with t show ?thesis
    by (auto simp: predict_water_quality_def split: option.splits)
qed

lemma reachable_texts:
  assumes "reachable os self"
  shows "\<exists>a b c. result_vars self = \<lparr>NO3 = NO3_text a, SO4 = SO4_text b, pH = pH_text c\<rparr>"
  using assms
proof (induction rule: reachable.induct)
  case (init shown self)
  then show ?case
    by (auto simp: WaterQualityPredictionApp_def create_ui_texts split: prod.splits sum.splits)
next
  case (edit_temp self s)
  then show ?case by simp
next
  case (edit_date self s)
  then show ?case by simp
next
  case (click self)
  from click.IH show ?case by (rule predict_water_quality_texts)
qed

text \<open>Runs of the example application and of the example platforms.\<close>

lemma example_abc_run:
  "predict_water_quality (example_app first_three_model ''abc'' ''2020/06'')
     = ((example_app first_three_model ''abc'' ''2020/06'')
          \<lparr>dialogs := [(''Input Error'', ''Please enter valid temperature and date.'')]\<rparr>, None)"
proof -
  obtain e where "float ''abc'' = Inl e"
    using float_abc by (auto simp: isl_def)
  then show ?thesis
    by (simp add: predict_water_quality_def predict_try_def showerror_def example_app_def
        create_ui_def float_raises_ValueError)
qed


lemma example_nonfinite_run:
  assumes "float t = Inr v" and "format_2f v = txt"
  shows "predict_water_quality (example_app first_three_model t ''2020/06'')
     = ((example_app first_three_model t ''2020/06'')
          \<lparr>result_vars :=
             \<lparr>NO3 = ''Nitrate (NO'' @ [CHR 0xE2, CHR 0x82, CHR 0x83] @ ''): '' @ txt @ '' mg/L'',
              SO4 = ''Sulphate (SO'' @ [CHR 0xE2, CHR 0x82, CHR 0x84] @ ''): 0.00 mg/L'',
              pH = ''pH Value: -1.00''\<rparr>\<rparr>, None)"
proof -
  have "temp_entry (example_app first_three_model t ''2020/06'') = t"
    and "date_entry (example_app first_three_model t ''2020/06'') = ''2020/06''"
    by (simp_all add: example_app_def)
  then show ?thesis
    using assms
    by (simp add: predict_water_quality_def predict_try_def predict_from_def
        update_result_vars_def getitem2_def getitem_def Let_def strptime_2020_06
        example_transform example_inverse_transform example_model first_three_model_def
        input_data_def month_sin_def month_cos_def base_year_def
        NO3_text_def SO4_text_def pH_text_def format_examples)
qed

lemma example_os_init:
  "WaterQualityPredictionApp (example_os all_files)
     = ([], Inr (create_ui (example_artifacts first_three_model) []))"
  by (simp add: WaterQualityPredictionApp_def load_model_and_scalers_def load_try_def
      example_os_def all_files_def example_artifacts_def)

lemma example_app_reachable: "reachable (example_os all_files) (example_app first_three_model t d)"
  unfolding example_app_def
  using edit_date[OF edit_temp[OF init[OF example_os_init]], of d t]
  by simp





section \<open>The claims\<close>

text \<open>
  Claim C1. For every input that parses, with temperature \<open>t\<close>, month \<open>m\<close> and year
  \<open>y\<close>, the month lies between 1 and 12, the feature array that
  \<^verbatim>\<open>predict_water_quality\<close> builds is the single row
  \<open>[t, sin (2\<pi>m/12), cos (2\<pi>m/12), y - 2010]\<close> in this order, and it is this array
  that the rest of the handler works on. (Floats are read as the reals they denote.)
\<close>

theorem feature_vector:
  assumes "float (temp_entry self) = Inr t"
    and "strptime (date_entry self) = Inr \<lparr>year = y, month = m\<rparr>"
  shows "1 \<le> m \<and> m \<le> 12
    \<and> input_data t \<lparr>year = y, month = m\<rparr>
        = [[t, Fin (sin (2 * pi * real_of_int m / 12)), Fin (cos (2 * pi * real_of_int m / 12)),
            Fin (real_of_int (y - 2010))]]
    \<and> predict_try self
        = predict_from self
            [[t, Fin (sin (2 * pi * real_of_int m / 12)), Fin (cos (2 * pi * real_of_int m / 12)),
              Fin (real_of_int (y - 2010))]]"
  using assms strptime_month_range[OF assms(2)]
  by (simp add: predict_try_def input_data_def month_sin_def month_cos_def base_year_def)

text \<open>
  Claim C1, at the input \<^verbatim>\<open>21.5\<close> and \<^verbatim>\<open>2020/06\<close>: the array is
  \<open>[21.5, 0, -1, 10]\<close>.
\<close>

theorem feature_vector_witness:
  "float (temp_entry (example_app first_three_model ''21.5'' ''2020/06'')) = Inr (Fin (43 / 2))
   \<and> strptime (date_entry (example_app first_three_model ''21.5'' ''2020/06''))
       = Inr \<lparr>year = 2020, month = 6\<rparr>
   \<and> input_data (Fin (43 / 2)) \<lparr>year = 2020, month = 6\<rparr>
       = [[Fin (43 / 2), Fin 0, Fin (- 1), Fin 10]]
   \<and> predict_try (example_app first_three_model ''21.5'' ''2020/06'')
       = predict_from (example_app first_three_model ''21.5'' ''2020/06'')
           [[Fin (43 / 2), Fin 0, Fin (- 1), Fin 10]]"
  using feature_vector[OF example_temp example_date, of first_three_model]
  by (simp add: example_temp example_date)



text \<open>
  Claim C3. When \<^verbatim>\<open>float\<close> refuses the temperature text or \<^verbatim>\<open>strptime\<close>
  refuses the date text, a click on Predict shows the dialog titled \<^verbatim>\<open>Input Error\<close>,
  changes nothing else, and no exception leaves the handler.
\<close>

theorem malformed_input_error_path:
  assumes "isl (float (temp_entry self)) \<or> isl (strptime (date_entry self))"
  shows "predict_water_quality self
    = (self\<lparr>dialogs := dialogs self
         @ [(''Input Error'', ''Please enter valid temperature and date.'')]\<rparr>, None)"
proof -
  have "\<exists>e. predict_try self = (self, Some e) \<and> is_ValueError e"
  proof (cases "float (temp_entry self)")
    case (Inl e)
    then show ?thesis
      by (simp add: predict_try_def float_raises_ValueError)
  next
    case (Inr temperature)
    with assms obtain e where "strptime (date_entry self) = Inl e"
      by (auto simp: isl_def)
    with Inr show ?thesis
      by (simp add: predict_try_def strptime_raises_ValueError)
  qed
  then show ?thesis
    by (auto simp: predict_water_quality_def showerror_def)
qed

text \<open>
  Claim C3, at the temperature \<^verbatim>\<open>abc\<close> and at the date \<^verbatim>\<open>2020-06\<close>.
\<close>

theorem malformed_input_error_path_witness:
  "isl (float (temp_entry (example_app first_three_model ''abc'' ''2020/06'')))
   \<and> isl (strptime (date_entry (example_app first_three_model ''21.5'' ''2020-06'')))
   \<and> predict_water_quality (example_app first_three_model ''abc'' ''2020/06'')
       = ((example_app first_three_model ''abc'' ''2020/06'')
            \<lparr>dialogs := [(''Input Error'', ''Please enter valid temperature and date.'')]\<rparr>,
          None)
   \<and> predict_water_quality (example_app first_three_model ''21.5'' ''2020-06'')
       = ((example_app first_three_model ''21.5'' ''2020-06'')
            \<lparr>dialogs := [(''Input Error'', ''Please enter valid temperature and date.'')]\<rparr>,
          None)"
proof -
  have a: "isl (float (temp_entry (example_app first_three_model ''abc'' ''2020/06'')))"
    by (simp add: example_app_def float_abc)
  have b: "isl (strptime (date_entry (example_app first_three_model ''21.5'' ''2020-06'')))"
    by (simp add: example_app_def strptime_dash)
  from malformed_input_error_path[of "example_app first_three_model ''abc'' ''2020/06''"]
    malformed_input_error_path[of "example_app first_three_model ''21.5'' ''2020-06''"] a b
  show ?thesis
    by (simp add: example_dialogs)
qed







text \<open>
  Claim C6. Whenever a click shows the dialog titled \<^verbatim>\<open>Input Error\<close>, the three
  result variables hold what they held before the click; the click changed nothing but
  the list of dialogs, and no exception leaves the handler.
\<close>

theorem input_error_keeps_labels:
  assumes "predict_water_quality self = (self', r)"
    and "dialogs self' = dialogs self @ [(''Input Error'', msg)]"
  shows "result_vars self' = result_vars self \<and> self' = self\<lparr>dialogs := dialogs self'\<rparr>
    \<and> r = None"
proof -
  obtain s1 r1 where t: "predict_try self = (s1, r1)"
    by (cases "predict_try self")
  note d = predict_try_dialogs[OF t]
  show ?thesis
  proof (cases r1)
    case None
    with t assms d show ?thesis
      by (simp add: predict_water_quality_def)
  next
    case (Some e)
    show ?thesis
    proof (cases "is_ValueError e")
      case True
      with t Some have "s1 = self"
        by (auto dest: predict_try_ValueError)
      with t Some True assms show ?thesis
        by (auto simp: predict_water_quality_def showerror_def)
    next
      case False
      with t Some assms d show ?thesis
        by (auto simp: predict_water_quality_def showerror_def split: if_splits)
    qed
  qed
qed

text \<open>
  Claim C6, at the temperature \<^verbatim>\<open>abc\<close>.
\<close>

theorem input_error_keeps_labels_witness:
  "predict_water_quality (example_app first_three_model ''abc'' ''2020/06'')
     = ((example_app first_three_model ''abc'' ''2020/06'')
          \<lparr>dialogs := [(''Input Error'', ''Please enter valid temperature and date.'')]\<rparr>, None)
   \<and> dialogs ((example_app first_three_model ''abc'' ''2020/06'')
          \<lparr>dialogs := [(''Input Error'', ''Please enter valid temperature and date.'')]\<rparr>)
     = dialogs (example_app first_three_model ''abc'' ''2020/06'')
         @ [(''Input Error'', ''Please enter valid temperature and date.'')]
   \<and> result_vars ((example_app first_three_model ''abc'' ''2020/06'')
          \<lparr>dialogs := [(''Input Error'', ''Please enter valid temperature and date.'')]\<rparr>)
     = result_vars (example_app first_three_model ''abc'' ''2020/06'')"
proof -
  have d: "dialogs ((example_app first_three_model ''abc'' ''2020/06'')
          \<lparr>dialogs := [(''Input Error'', ''Please enter valid temperature and date.'')]\<rparr>)
     = dialogs (example_app first_three_model ''abc'' ''2020/06'')
         @ [(''Input Error'', ''Please enter valid temperature and date.'')]"
    by (simp add: example_dialogs)
  from input_error_keeps_labels[OF example_abc_run d] example_abc_run d
  show ?thesis
    by simp
qed

text \<open>
  Claim C7. A \<^verbatim>\<open>ValueError\<close> raised after both entries have parsed, by
  \<^verbatim>\<open>X_scaler.transform\<close>, \<^verbatim>\<open>model.predict\<close> or
  \<^verbatim>\<open>y_scaler.inverse_transform\<close>, gives the dialog \<^verbatim>\<open>Input Error\<close> with the
  message \<^verbatim>\<open>Please enter valid temperature and date.\<close>, not the dialog
  \<^verbatim>\<open>Prediction Error\<close>.
\<close>

theorem late_ValueError_is_input_error:
  assumes "float (temp_entry self) = Inr t" and "strptime (date_entry self) = Inr d"
    and "transform (X_scaler self) (input_data t d) = Inl (ValueError msg)
      \<or> (\<exists>xn. transform (X_scaler self) (input_data t d) = Inr xn
            \<and> (predict (model self) xn = Inl (ValueError msg)
               \<or> (\<exists>pn. predict (model self) xn = Inr pn
                     \<and> inverse_transform (y_scaler self) pn = Inl (ValueError msg))))"
  shows "predict_water_quality self
    = (self\<lparr>dialogs := dialogs self
         @ [(''Input Error'', ''Please enter valid temperature and date.'')]\<rparr>, None)"
  using stage_raises[OF assms]
  by (simp add: predict_water_quality_def showerror_def)

text \<open>
  Claim C7, with a model whose \<^verbatim>\<open>predict\<close> raises a \<^verbatim>\<open>ValueError\<close>.
\<close>

theorem late_ValueError_is_input_error_witness:
  "float (temp_entry (example_app (raising_model (ValueError ''Input contains NaN.'')) ''21.5''
      ''2020/06'')) = Inr (Fin (43 / 2))
   \<and> strptime (date_entry (example_app (raising_model (ValueError ''Input contains NaN.''))
      ''21.5'' ''2020/06'')) = Inr \<lparr>year = 2020, month = 6\<rparr>
   \<and> transform (X_scaler (example_app (raising_model (ValueError ''Input contains NaN.''))
      ''21.5'' ''2020/06'')) (input_data (Fin (43 / 2)) \<lparr>year = 2020, month = 6\<rparr>)
       = Inr [[Fin (43 / 2), Fin 0, Fin (- 1), Fin 10]]
   \<and> predict (model (example_app (raising_model (ValueError ''Input contains NaN.'')) ''21.5''
      ''2020/06'')) [[Fin (43 / 2), Fin 0, Fin (- 1), Fin 10]]
       = Inl (ValueError ''Input contains NaN.'')
   \<and> predict_water_quality (example_app (raising_model (ValueError ''Input contains NaN.''))
      ''21.5'' ''2020/06'')
       = ((example_app (raising_model (ValueError ''Input contains NaN.'')) ''21.5'' ''2020/06'')
            \<lparr>dialogs := [(''Input Error'', ''Please enter valid temperature and date.'')]\<rparr>,
          None)"
proof -
  let ?e = "ValueError ''Input contains NaN.''"
  let ?A = "example_app (raising_model ?e) ''21.5'' ''2020/06''"
  have h3: "transform (X_scaler ?A) (input_data (Fin (43 / 2)) \<lparr>year = 2020, month = 6\<rparr>)
      = Inr [[Fin (43 / 2), Fin 0, Fin (- 1), Fin 10]]"
    by (simp add: example_transform example_input)
  have h4: "predict (model ?A) [[Fin (43 / 2), Fin 0, Fin (- 1), Fin 10]] = Inl ?e"
    by (simp add: example_model raising_model_def)
  from late_ValueError_is_input_error[of ?A "Fin (43 / 2)" "\<lparr>year = 2020, month = 6\<rparr>"
      "''Input contains NaN.''"]
  show ?thesis
    using h3 h4 by (simp add: example_temp example_date example_dialogs)
qed






text \<open>
  Claim C10, amended. In every reachable state each result variable is its caption, a
  value printed by the \<^verbatim>\<open>.2f\<close> format, and the unit \<^verbatim>\<open>mg/L\<close> for nitrate and
  sulphate, nothing for pH. The format prints a finite value with exactly two decimal
  places and the other values as \<^verbatim>\<open>nan\<close>, \<^verbatim>\<open>inf\<close> or \<^verbatim>\<open>-inf\<close>. The initial
  value is \<^verbatim>\<open>0.00\<close>.
\<close>

theorem labels_keep_format:
  assumes "reachable os self"
  shows "(\<exists>a b c. result_vars self = \<lparr>NO3 = NO3_text a, SO4 = SO4_text b, pH = pH_text c\<rparr>)
    \<and> labels_show dot2f_text (result_vars self)
    \<and> (\<forall>x. two_decimal_places (format_2f (Fin x)))
    \<and> (\<forall>a shown. labels_show (\<lambda>t. t = ''0.00'') (result_vars (create_ui a shown)))"
proof -
  from reachable_texts[OF assms] obtain a b c
    where l: "result_vars self = \<lparr>NO3 = NO3_text a, SO4 = SO4_text b, pH = pH_text c\<rparr>"
    by blast
  have "labels_show dot2f_text (result_vars self)"
    unfolding l by (rule labels_show_texts) (rule dot2f_text_format)+
  moreover have "labels_show (\<lambda>t. t = ''0.00'') (result_vars (create_ui a' shown))" for a' shown
    unfolding create_ui_texts by (rule labels_show_texts) (simp_all add: format_examples)
  ultimately show ?thesis
    using l two_decimal_places_format by blast
qed

text \<open>
  Claim C10, amended, in the state after a click with the temperature \<^verbatim>\<open>nan\<close>.
\<close>

theorem labels_keep_format_witness:
  "reachable (example_os all_files)
     (fst (predict_water_quality (example_app first_three_model ''nan'' ''2020/06'')))
   \<and> labels_show dot2f_text
       (result_vars (fst (predict_water_quality
          (example_app first_three_model ''nan'' ''2020/06''))))
   \<and> two_decimal_places (format_2f (Fin (43 / 2)))"
proof -
  have r: "reachable (example_os all_files)
     (fst (predict_water_quality (example_app first_three_model ''nan'' ''2020/06'')))"
    by (rule click[OF example_app_reachable])
  from labels_keep_format[OF r] r show ?thesis
    by blast
qed

text \<open>
  Claim C10 as stated fails: after a click with the temperature \<^verbatim>\<open>nan\<close>, scalers that
  change nothing and a model that returns the first three columns, the nitrate label
  reads \<^verbatim>\<open>nan mg/L\<close>.
\<close>

theorem nan_label_not_two_decimals:
  "reachable (example_os all_files)
     (fst (predict_water_quality (example_app first_three_model ''nan'' ''2020/06'')))
   \<and> NO3 (result_vars (fst (predict_water_quality
         (example_app first_three_model ''nan'' ''2020/06''))))
       = ''Nitrate (NO'' @ [CHR 0xE2, CHR 0x82, CHR 0x83] @ ''): nan mg/L''
   \<and> \<not> labels_show two_decimal_places
         (result_vars (fst (predict_water_quality
            (example_app first_three_model ''nan'' ''2020/06''))))"
proof -
  have r: "reachable (example_os all_files)
     (fst (predict_water_quality (example_app first_three_model ''nan'' ''2020/06'')))"
    by (rule click[OF example_app_reachable])
  have "format_2f NaN = ''nan''"
    by (simp add: format_2f.simps)
  note example_nonfinite_run[OF float_nan this]
  then show ?thesis
    using r by (simp add: labels_show_def between_def two_decimal_places_def is_digit_def)
qed

end
